theory Spec2Isabelle
  imports Complex_Main "HOL-Library.Word"
begin

unbundle bit_operations_syntax

section \<open>JavaScript strings and JSON values\<close>

text \<open>
  A JavaScript string is a sequence of UTF-16 code units. String literals of the source are
  written \<open>js ''...''\<close>; a \<open>Buffer\<close> is a list of bytes.
\<close>

type_synonym jsstring = "16 word list"

type_synonym buffer = "8 word list"

definition js :: "string \<Rightarrow> jsstring" where
  "js s = map (\<lambda>c. of_nat (of_char c)) s"

definition ascii :: "string \<Rightarrow> buffer" where
  "ascii s = map (\<lambda>c. of_nat (of_char c)) s"

text \<open>\<open>s.startsWith(p)\<close> and \<open>s.slice(n)\<close> for \<open>0 \<le> n\<close>.\<close>

definition startsWith :: "jsstring \<Rightarrow> jsstring \<Rightarrow> bool" where
  "startsWith s p = (take (length p) s = p)"

definition slice_str :: "jsstring \<Rightarrow> nat \<Rightarrow> jsstring" where
  "slice_str s n = drop n s"

text \<open>
  The object literals that the program serialises with \<open>JSON.stringify\<close>: event payloads and
  canned bodies.
\<close>

datatype json =
    JNull
  | JBool bool
  | JNum int
  | JStr jsstring
  | JArr "json list"
  | JObj "(jsstring \<times> json) list"

section \<open>translator.ts: the wire formats\<close>

text \<open>An optional field (\<open>f?: T\<close>) is an option; \<open>None\<close> is \<open>undefined\<close>.\<close>

record AnthropicContentBlock =
  cb_type :: jsstring
  cb_text :: "jsstring option"

datatype AnthropicContent = AText jsstring | ABlocks "AnthropicContentBlock list"

record AnthropicMessage =
  am_role :: jsstring
  am_content :: AnthropicContent

record AnthropicRequest =
  ar_model :: jsstring
  ar_messages :: "AnthropicMessage list"
  ar_max_tokens :: "int option"
  ar_temperature :: "real option"
  ar_top_p :: "real option"
  ar_top_k :: "int option"
  ar_stream :: "bool option"
  ar_system :: "jsstring option"
  ar_tools :: "json option"

record OpenAIContentBlock =
  ob_type :: jsstring
  ob_text :: "jsstring option"

datatype OpenAIContent = OText jsstring | OBlocks "OpenAIContentBlock list"

record OpenAIMessage =
  om_role :: jsstring
  om_content :: OpenAIContent

text \<open>
  What a property read \<open>MODEL_MAP[key]\<close> can yield: one of the table's own strings, or a member
  that the object literal inherits from \<open>Object.prototype\<close> (a function, or the prototype
  object itself for \<open>__proto__\<close>).
\<close>

datatype model_value = ModelName jsstring | PrototypeMember jsstring

record OpenAIRequest =
  or_model :: model_value
  or_messages :: "OpenAIMessage list"
  or_max_tokens :: "int option"
  or_temperature :: "real option"
  or_top_p :: "real option"
  or_stream :: "bool option"
  or_instructions :: "jsstring option"
  or_store :: "bool option"

record OpenAIUsage =
  prompt_tokens :: int
  completion_tokens :: int
  total_tokens :: int

record OpenAIChoice =
  oc_index :: int
  oc_message :: OpenAIMessage
  oc_finish_reason :: "jsstring option"

record OpenAIResponse =
  resp_id :: jsstring
  resp_object :: jsstring
  resp_created :: int
  resp_model :: jsstring
  resp_choices :: "OpenAIChoice list"
  resp_usage :: "OpenAIUsage option"

text \<open>\<open>Partial<OpenAIMessage>\<close>: every field optional.\<close>

record OpenAIDelta =
  od_role :: "jsstring option"
  od_content :: "OpenAIContent option"

record OpenAIStreamChoice =
  sc_index :: int
  sc_delta :: OpenAIDelta
  sc_finish_reason :: "jsstring option"

record OpenAIStreamChunk =
  chunk_id :: jsstring
  chunk_created :: int
  chunk_model :: jsstring
  chunk_choices :: "OpenAIStreamChoice list"

record AnthropicUsage =
  input_tokens :: int
  output_tokens :: int

record AnthropicTranslated =
  at_content :: "AnthropicContentBlock list"
  at_stop_reason :: "jsstring option"
  at_usage :: "AnthropicUsage option"

section \<open>translator.ts: model mapping\<close>

definition MODEL_MAP :: "(jsstring \<times> jsstring) list" where
  "MODEL_MAP =
    [(js ''claude-sonnet-4-5-20250929'', js ''gpt-5.2-codex''),
     (js ''claude-opus-4-5-20250929'', js ''gpt-5.2-codex''),
     (js ''claude-haiku-4-5-20250929'', js ''gpt-5.1-codex-mini''),
     (js ''claude-3-5-sonnet-20241022'', js ''gpt-5.2-codex''),
     (js ''claude-3-opus-20240229'', js ''gpt-5.2-codex''),
     (js ''claude-3-haiku-20240307'', js ''gpt-5.1-codex-mini''),
     (js ''default'', js ''gpt-5.2-codex'')]"

text \<open>
  \<open>MODEL_MAP\<close> is a plain object literal, so a read of a key that is not its own goes on to
  \<open>Object.prototype\<close>. These are the property names ECMAScript defines there; each holds an
  object, which is truthy.
\<close>

definition Object_prototype_keys :: "jsstring list" where
  "Object_prototype_keys =
    [js ''constructor'', js ''__defineGetter__'', js ''__defineSetter__'',
     js ''hasOwnProperty'', js ''__lookupGetter__'', js ''__lookupSetter__'',
     js ''isPrototypeOf'', js ''propertyIsEnumerable'', js ''toString'', js ''valueOf'',
     js ''__proto__'', js ''toLocaleString'']"

definition MODEL_MAP_get :: "jsstring \<Rightarrow> model_value option" where
  "MODEL_MAP_get key =
    (case map_of MODEL_MAP key of
       Some v \<Rightarrow> Some (ModelName v)
     | None \<Rightarrow> if key \<in> set Object_prototype_keys then Some (PrototypeMember key) else None)"

fun truthy_model_value :: "model_value option \<Rightarrow> bool" where
  "truthy_model_value None = False"
| "truthy_model_value (Some (ModelName s)) = (s \<noteq> [])"
| "truthy_model_value (Some (PrototypeMember k)) = True"

text \<open>\<open>return MODEL_MAP[anthropicModel] || MODEL_MAP.default\<close>\<close>

definition mapModel :: "jsstring \<Rightarrow> model_value" where
  "mapModel anthropicModel =
    (let v = MODEL_MAP_get anthropicModel
     in case v of
          Some m \<Rightarrow> if truthy_model_value v then m else ModelName (js ''gpt-5.2-codex'')
        | None \<Rightarrow> ModelName (js ''gpt-5.2-codex''))"

section \<open>translator.ts: requests\<close>

text \<open>
  The loop body of \<open>translateAnthropicToOpenAI\<close>: string content is copied, a block list is
  filtered to its text blocks, whose texts are joined (\<open>join\<close> writes \<open>undefined\<close> as the empty
  string).
\<close>

definition textContent :: "AnthropicContentBlock list \<Rightarrow> jsstring" where
  "textContent blocks =
    concat (map (\<lambda>block. case cb_text block of None \<Rightarrow> [] | Some t \<Rightarrow> t)
                (filter (\<lambda>block. cb_type block = js ''text'') blocks))"

definition translateMessage :: "AnthropicMessage \<Rightarrow> OpenAIMessage" where
  "translateMessage msg =
    (case am_content msg of
       AText s \<Rightarrow>
         \<lparr>om_role = (if am_role msg = js ''assistant'' then js ''assistant'' else js ''user''),
          om_content = OText s\<rparr>
     | ABlocks blocks \<Rightarrow>
         \<lparr>om_role = (if am_role msg = js ''assistant'' then js ''assistant'' else js ''user''),
          om_content = OText (textContent blocks)\<rparr>)"

fun truthy_string :: "jsstring option \<Rightarrow> bool" where
  "truthy_string None = False"
| "truthy_string (Some s) = (s \<noteq> [])"

definition translateAnthropicToOpenAI :: "AnthropicRequest \<Rightarrow> jsstring option \<Rightarrow> OpenAIRequest" where
  "translateAnthropicToOpenAI anthropicReq codexInstructions =
    (let messages0 =
           (case ar_system anthropicReq of
              Some system \<Rightarrow>
                if truthy_string (Some system)
                then [\<lparr>om_role = js ''system'', om_content = OText system\<rparr>]
                else []
            | None \<Rightarrow> []);
         messages = messages0 @ map translateMessage (ar_messages anthropicReq)
     in \<lparr>or_model = mapModel (ar_model anthropicReq),
         or_messages = messages,
         or_max_tokens = ar_max_tokens anthropicReq,
         or_temperature = ar_temperature anthropicReq,
         or_top_p = ar_top_p anthropicReq,
         or_stream = Some (case ar_stream anthropicReq of None \<Rightarrow> True | Some b \<Rightarrow> b),
         or_instructions = (if truthy_string codexInstructions then codexInstructions else None),
         or_store = Some False\<rparr>)"

definition CODEX_SYSTEM_INSTRUCTIONS :: jsstring where
  "CODEX_SYSTEM_INSTRUCTIONS =
    js ''You are a coding agent running in a terminal-based coding assistant. You are expected to be precise, safe, and helpful.''"

section \<open>translator.ts: responses\<close>

definition textBlocks :: "OpenAIContentBlock list \<Rightarrow> AnthropicContentBlock list" where
  "textBlocks blocks =
    map (\<lambda>block. \<lparr>cb_type = js ''text'',
                  cb_text = Some (case ob_text block of Some t \<Rightarrow> t | None \<Rightarrow> [])\<rparr>)
        (filter (\<lambda>block. ob_type block = js ''text'') blocks)"

definition stop_reason_of :: "jsstring option \<Rightarrow> jsstring option" where
  "stop_reason_of finish_reason =
    (if finish_reason = Some (js ''stop'') then Some (js ''end_turn'')
     else if finish_reason = Some (js ''length'') then Some (js ''max_tokens'')
     else None)"

definition translateOpenAIToAnthropic :: "OpenAIResponse \<Rightarrow> AnthropicTranslated" where
  "translateOpenAIToAnthropic openAIResp =
    (case resp_choices openAIResp of
       [] \<Rightarrow> \<lparr>at_content = [], at_stop_reason = None, at_usage = None\<rparr>
     | choice # _ \<Rightarrow>
         \<lparr>at_content =
            (case om_content (oc_message choice) of
               OText s \<Rightarrow> [\<lparr>cb_type = js ''text'', cb_text = Some s\<rparr>]
             | OBlocks blocks \<Rightarrow> textBlocks blocks),
          at_stop_reason = stop_reason_of (oc_finish_reason choice),
          at_usage =
            (case resp_usage openAIResp of
               None \<Rightarrow> None
             | Some u \<Rightarrow> Some \<lparr>input_tokens = prompt_tokens u,
                               output_tokens = completion_tokens u\<rparr>)\<rparr>)"

text \<open>
  The signal of \<open>translateOpenAIStreamChunk\<close>: \<open>None\<close> is \<open>null\<close>; the \<open>delta\<close> field is
  present only on a text delta.
\<close>

record StreamSignal =
  sig_type :: jsstring
  sig_delta_text :: "jsstring option"

fun truthy_content :: "OpenAIContent option \<Rightarrow> bool" where
  "truthy_content None = False"
| "truthy_content (Some (OText s)) = (s \<noteq> [])"
| "truthy_content (Some (OBlocks bs)) = True"

definition translateOpenAIStreamChunk :: "OpenAIStreamChunk \<Rightarrow> StreamSignal option" where
  "translateOpenAIStreamChunk chunk =
    (case chunk_choices chunk of
       [] \<Rightarrow> None
     | choice # _ \<Rightarrow>
         if truthy_string (sc_finish_reason choice)
         then Some \<lparr>sig_type = js ''message_stop'', sig_delta_text = None\<rparr>
         else if truthy_content (od_content (sc_delta choice))
         then Some \<lparr>sig_type = js ''content_block_delta'',
                    sig_delta_text =
                      Some (case od_content (sc_delta choice) of
                              Some (OText s) \<Rightarrow> s
                            | _ \<Rightarrow> [])\<rparr>
         else None)"

text \<open>\<open>createAnthropicStreamEvent(eventType, data)\<close>, before serialisation.\<close>

datatype sse_event = Event jsstring json

section \<open>oauth.ts: the credential\<close>

record TokenData =
  access_token :: jsstring
  refresh_token :: jsstring
  expires_at :: int

record TokenResponse =
  tr_id_token :: jsstring
  tr_access_token :: jsstring
  tr_refresh_token :: jsstring
  tr_expires_in :: "int option"

text \<open>
  What the credential code meets outside itself: the credential \<open>loadTokens\<close> returns
  (\<open>None\<close> when the file is missing or unparsable), the two readings of \<open>Date.now()\<close>, what
  the token endpoint does with the refresh request (the request's \<open>error\<close> event, or an answer
  with its status code and body), \<open>JSON.parse\<close> of that body read as a \<open>TokenResponse\<close> (\<open>Inl\<close>
  with the error's message when it throws), and whether \<open>fs.writeFile\<close> in \<open>saveTokens\<close>
  succeeds. Times are millisecond counts; the integer arithmetic agrees with the code's
  doubles as long as the values stay below \<open>2^53\<close>.
\<close>

datatype http_answer = RequestError jsstring | Answer "nat option" jsstring

record oauth_world =
  loadTokens :: "TokenData option"
  now_at_check :: int
  now_after_refresh :: int
  token_endpoint :: "jsstring \<Rightarrow> http_answer"
  JSON_parse_tokens :: "jsstring \<Rightarrow> jsstring + TokenResponse"
  writeFile_ok :: bool

text \<open>
  The promise of \<open>refreshAccessToken\<close>. It rejects on the request's \<open>error\<close> event and on a
  status other than 200, with an error that carries the status and the body. On status 200
  it runs \<open>resolve(JSON.parse(data))\<close> inside the response's \<open>end\<close> listener: when \<open>JSON.parse\<close>
  throws there, the exception leaves the listener, nothing catches it, and the promise is
  never settled.
\<close>

datatype refresh_error = RequestFailed jsstring | TokenRefreshFailed "nat option" jsstring

datatype refresh_promise =
    Resolved TokenResponse
  | Rejected refresh_error
  | Unsettled jsstring

definition refreshAccessToken :: "oauth_world \<Rightarrow> jsstring \<Rightarrow> refresh_promise" where
  "refreshAccessToken w refreshToken =
    (case token_endpoint w refreshToken of
       RequestError err \<Rightarrow> Rejected (RequestFailed err)
     | Answer statusCode data \<Rightarrow>
         if statusCode \<noteq> Some 200 then Rejected (TokenRefreshFailed statusCode data)
         else (case JSON_parse_tokens w data of
                 Inl syntax_error \<Rightarrow> Unsettled syntax_error
               | Inr tokens \<Rightarrow> Resolved tokens))"

datatype oauth_call =
    LoadTokens
  | RefreshAccessToken jsstring
  | SaveTokens TokenData

text \<open>
  How an awaited call ends: it returns a value, or it never returns because the promise it
  awaits is never settled, with the exception that was thrown out of the listener left
  uncaught in the process.
\<close>

datatype token_completion = Returns "jsstring option" | NeverReturns jsstring

record token_result =
  result :: token_completion
  oauth_calls :: "oauth_call list"

definition getValidAccessToken :: "oauth_world \<Rightarrow> token_result" where
  "getValidAccessToken w =
    (case loadTokens w of
       None \<Rightarrow> \<lparr>result = Returns None, oauth_calls = [LoadTokens]\<rparr>
     | Some tokens \<Rightarrow>
         if now_at_check w \<ge> expires_at tokens - 5 * 60 * 1000 then
           (case refreshAccessToken w (refresh_token tokens) of
              Rejected err \<Rightarrow>
                \<lparr>result = Returns None,
                 oauth_calls = [LoadTokens, RefreshAccessToken (refresh_token tokens)]\<rparr>
            | Unsettled uncaught \<Rightarrow>
                \<lparr>result = NeverReturns uncaught,
                 oauth_calls = [LoadTokens, RefreshAccessToken (refresh_token tokens)]\<rparr>
            | Resolved refreshed \<Rightarrow>
                (let newTokens =
                       \<lparr>access_token = tr_access_token refreshed,
                        refresh_token = tr_refresh_token refreshed,
                        expires_at = now_after_refresh w +
                          (case tr_expires_in refreshed of None \<Rightarrow> 3600 | Some e \<Rightarrow> e) * 1000\<rparr>
                 in if writeFile_ok w
                    then \<lparr>result = Returns (Some (access_token newTokens)),
                          oauth_calls = [LoadTokens, RefreshAccessToken (refresh_token tokens),
                                         SaveTokens newTokens]\<rparr>
                    else \<lparr>result = Returns None,
                          oauth_calls = [LoadTokens, RefreshAccessToken (refresh_token tokens),
                                         SaveTokens newTokens]\<rparr>))
         else \<lparr>result = Returns (Some (access_token tokens)), oauth_calls = [LoadTokens]\<rparr>)"

section \<open>proxy.ts: the chat handler\<close>

record request =
  req_authorization :: "jsstring option"
  req_x_model :: "jsstring option"
  req_pathname :: jsstring
  req_body :: jsstring

definition error_body :: "jsstring \<Rightarrow> jsstring \<Rightarrow> json" where
  "error_body type message =
    JObj [(js ''error'', JObj [(js ''type'', JStr type), (js ''message'', JStr message)])]"

text \<open>
  The handler either answers by itself (\<open>writeHead\<close> with a status, \<open>end\<close> with a JSON body),
  or calls \<open>forwardToCodex\<close>, or is never resumed from \<open>await getValidAccessToken()\<close> and so
  writes nothing. \<open>handler_calls\<close> lists, in order, the calls it made on the way.
\<close>

datatype outcome =
    Reply nat json
  | ForwardToCodex OpenAIRequest jsstring bool
  | NoReply jsstring

datatype handler_call =
    GetValidAccessToken "oauth_call list"
  | JSON_parse_body
  | TranslateAnthropicToOpenAI

record handled =
  outcome :: outcome
  handler_calls :: "handler_call list"

text \<open>
  \<open>parse\<close> stands for \<open>JSON.parse\<close> of the request body read as an \<open>AnthropicRequest\<close>;
  \<open>Inl\<close> with the error's message when it throws, which the handler's \<open>catch\<close> answers
  with 400.
\<close>

definition handleAnthropicRequest ::
  "(jsstring \<Rightarrow> jsstring + AnthropicRequest) \<Rightarrow> oauth_world \<Rightarrow> request \<Rightarrow> handled" where
  "handleAnthropicRequest parse w req =
    (let authHeader = (case req_authorization req of Some h \<Rightarrow> h | None \<Rightarrow> []);
         apiKey = (if startsWith authHeader (js ''Bearer '') then slice_str authHeader 7 else [])
     in if apiKey = [] \<or> \<not> startsWith apiKey (js ''sk-ant-'') then
          \<lparr>outcome = Reply 401 (error_body (js ''authentication_error'')
               (js ''Invalid API key. Please set ANTHROPIC_API_KEY environment variable.'')),
           handler_calls = []\<rparr>
        else
          (let tok = getValidAccessToken w;
               calls = [GetValidAccessToken (oauth_calls tok)]
           in case result tok of
                NeverReturns uncaught \<Rightarrow> \<lparr>outcome = NoReply uncaught, handler_calls = calls\<rparr>
              | Returns codexToken \<Rightarrow>
                  if \<not> truthy_string codexToken then
                    \<lparr>outcome = Reply 401 (error_body (js ''authentication_error'')
                         (js ''Not authenticated with Codex. Run 'codex-proxy login' first.'')),
                     handler_calls = calls\<rparr>
                  else if startsWith (req_pathname req) (js ''/v1/messages'') then
                    (case parse (req_body req) of
                       Inl message \<Rightarrow>
                         \<lparr>outcome = Reply 400 (error_body (js ''invalid_request_error'') message),
                          handler_calls = calls @ [JSON_parse_body]\<rparr>
                     | Inr anthropicReq \<Rightarrow>
                         \<lparr>outcome = ForwardToCodex
                            (translateAnthropicToOpenAI anthropicReq
                               (Some CODEX_SYSTEM_INSTRUCTIONS))
                            (case codexToken of Some t \<Rightarrow> t | None \<Rightarrow> [])
                            (case ar_stream anthropicReq of None \<Rightarrow> True | Some b \<Rightarrow> b),
                          handler_calls = calls @ [JSON_parse_body, TranslateAnthropicToOpenAI]\<rparr>)
                  else if startsWith (req_pathname req) (js ''/api/hello'') then
                    \<lparr>outcome = Reply 200
                       (JObj [(js ''status'', JStr (js ''ok'')),
                              (js ''version'', JStr (js ''0.1.0''))]),
                     handler_calls = calls\<rparr>
                  else
                    \<lparr>outcome = Reply 200
                       (JObj [(js ''status'', JStr (js ''ok'')),
                              (js ''message'', JStr (js ''Endpoint not implemented in proxy''))]),
                     handler_calls = calls\<rparr>))"

section \<open>proxy.ts: reading the upstream response\<close>

text \<open>
  \<open>chunk.toString()\<close> decodes the bytes of one read as UTF-8 on their own. The decoder is the
  platform's: a byte sequence that is not valid UTF-8, a sequence cut off by the end of the
  buffer included, decodes to U+FFFD. \<open>needed\<close> counts the continuation bytes still expected,
  \<open>cp\<close> is the code point so far, and \<open>lower\<close> and \<open>upper\<close> bound the next byte.
\<close>

fun utf16_units :: "nat \<Rightarrow> jsstring" where
  "utf16_units cp =
    (if cp < 0x10000 then [of_nat cp]
     else [of_nat (0xD800 + (cp - 0x10000) div 0x400),
           of_nat (0xDC00 + (cp - 0x10000) mod 0x400)])"

fun utf8_decode :: "nat \<Rightarrow> nat \<Rightarrow> nat \<Rightarrow> nat \<Rightarrow> buffer \<Rightarrow> jsstring" where
  "utf8_decode needed cp lower upper [] = (if needed \<noteq> 0 then [0xFFFD] else [])"
| "utf8_decode needed cp lower upper (byte # bytes) =
    (let b = unat byte in
     if needed = 0 then
       if b \<le> 0x7F then of_nat b # utf8_decode 0 0 0x80 0xBF bytes
       else if 0xC2 \<le> b \<and> b \<le> 0xDF then utf8_decode 1 (b mod 0x20) 0x80 0xBF bytes
       else if 0xE0 \<le> b \<and> b \<le> 0xEF then
         utf8_decode 2 (b mod 0x10) (if b = 0xE0 then 0xA0 else 0x80)
           (if b = 0xED then 0x9F else 0xBF) bytes
       else if 0xF0 \<le> b \<and> b \<le> 0xF4 then
         utf8_decode 3 (b mod 0x08) (if b = 0xF0 then 0x90 else 0x80)
           (if b = 0xF4 then 0x8F else 0xBF) bytes
       else 0xFFFD # utf8_decode 0 0 0x80 0xBF bytes
     else if b < lower \<or> upper < b then 0xFFFD # utf8_decode 0 0 0x80 0xBF (byte # bytes)
     else if needed = 1 then utf16_units (cp * 0x40 + b mod 0x40) @ utf8_decode 0 0 0x80 0xBF bytes
     else utf8_decode (needed - 1) (cp * 0x40 + b mod 0x40) 0x80 0xBF bytes)"

definition toString :: "buffer \<Rightarrow> jsstring" where
  "toString buf = utf8_decode 0 0 0x80 0xBF buf"

text \<open>\<open>s.split("\n")\<close>: the segments between line feeds, never an empty array.\<close>

fun split_newline :: "jsstring \<Rightarrow> jsstring list" where
  "split_newline [] = [[]]"
| "split_newline (c # cs) =
    (if c = 0x0A then [] # split_newline cs
     else (case split_newline cs of [] \<Rightarrow> [[c]] | l # ls \<Rightarrow> (c # l) # ls))"

text \<open>\<open>lines.pop()\<close>: the last element (\<open>undefined\<close> on an empty array) and the array left.\<close>

definition pop :: "jsstring list \<Rightarrow> jsstring option \<times> jsstring list" where
  "pop xs = (if xs = [] then (None, []) else (Some (last xs), butlast xs))"

section \<open>proxy.ts: the streaming relay\<close>

text \<open>
  A response body: a JSON value, or the message envelope with its \<open>id\<close>, \<open>content\<close>, \<open>model\<close>,
  \<open>stop_reason\<close> and \<open>usage\<close> (\<open>type\<close> and \<open>role\<close> are the constants \<open>message\<close> and \<open>assistant\<close>).
\<close>

datatype res_body =
    JsonBody json
  | MessageBody jsstring "AnthropicContentBlock list" model_value "jsstring option"
      "AnthropicUsage option"

datatype res_action =
    WriteHead nat "(jsstring \<times> jsstring) list"
  | Write sse_event
  | End "res_body option"

definition message_start :: "jsstring option \<Rightarrow> sse_event" where
  "message_start x_model =
    Event (js ''message_start'')
      (JObj [(js ''type'', JStr (js ''message'')),
             (js ''role'', JStr (js ''assistant'')),
             (js ''content'', JArr []),
             (js ''model'', JStr (if truthy_string x_model
                                  then (case x_model of Some m \<Rightarrow> m | None \<Rightarrow> [])
                                  else js ''claude-sonnet-4-5-20250929''))])"

definition content_block_start :: sse_event where
  "content_block_start =
    Event (js ''content_block_start'')
      (JObj [(js ''type'', JStr (js ''content_block'')),
             (js ''index'', JNum 0),
             (js ''content_block'', JObj [(js ''type'', JStr (js ''text'')), (js ''text'', JStr [])])])"

definition content_block_delta :: "jsstring \<Rightarrow> sse_event" where
  "content_block_delta text =
    Event (js ''content_block_delta'')
      (JObj [(js ''type'', JStr (js ''content_block_delta'')),
             (js ''index'', JNum 0),
             (js ''delta'', JObj [(js ''type'', JStr (js ''text_delta'')), (js ''text'', JStr text)])])"

definition content_block_stop :: sse_event where
  "content_block_stop = Event (js ''content_block_stop'') (JObj [(js ''index'', JNum 0)])"

definition message_delta :: sse_event where
  "message_delta =
    Event (js ''message_delta'')
      (JObj [(js ''type'', JStr (js ''message_delta'')),
             (js ''delta'', JObj [(js ''stop_reason'', JStr (js ''end_turn'')),
                                  (js ''stop_sequence'', JNull)]),
             (js ''usage'', JObj [(js ''output_tokens'', JNum 0)])])"

definition message_stop :: sse_event where
  "message_stop = Event (js ''message_stop'') (JObj [(js ''type'', JStr (js ''message_stop''))])"

text \<open>
  The state of one streaming response: the \<open>buffer\<close> variable, what has been written to
  \<open>res\<close>, and the arguments of the calls of \<open>JSON.parse\<close> so far. \<open>parse\<close> stands for
  \<open>JSON.parse\<close> read as an \<open>OpenAIStreamChunk\<close>; \<open>None\<close> when it, or the translator on its
  result, throws, which the \<open>catch\<close> in the loop ignores.
\<close>

record relay_state =
  rs_buffer :: jsstring
  rs_written :: "res_action list"
  rs_parsed :: "jsstring list"

definition process_line ::
  "(jsstring \<Rightarrow> OpenAIStreamChunk option) \<Rightarrow> relay_state \<Rightarrow> jsstring \<Rightarrow> relay_state" where
  "process_line parse st line =
    (if startsWith line (js ''data: '') then
       (let data = slice_str line 6 in
        if data = js ''[DONE]'' then st
        else
          (let st1 = st\<lparr>rs_parsed := rs_parsed st @ [data]\<rparr> in
           case parse data of
             None \<Rightarrow> st1
           | Some chunk \<Rightarrow>
               (case translateOpenAIStreamChunk chunk of
                  None \<Rightarrow> st1
                | Some translated \<Rightarrow>
                    if sig_type translated = js ''content_block_delta''
                       \<and> truthy_string (sig_delta_text translated)
                    then st1\<lparr>rs_written := rs_written st1 @
                           [Write (content_block_delta
                              (case sig_delta_text translated of Some t \<Rightarrow> t | None \<Rightarrow> []))]\<rparr>
                    else st1)))
     else st)"

definition on_data ::
  "(jsstring \<Rightarrow> OpenAIStreamChunk option) \<Rightarrow> relay_state \<Rightarrow> buffer \<Rightarrow> relay_state" where
  "on_data parse st chunk =
    (let buffer1 = rs_buffer st @ toString chunk;
         (popped, lines) = pop (split_newline buffer1);
         buffer2 = (case popped of Some l \<Rightarrow> l | None \<Rightarrow> [])
     in foldl (process_line parse) (st\<lparr>rs_buffer := buffer2\<rparr>) lines)"

definition on_end :: "relay_state \<Rightarrow> relay_state" where
  "on_end st =
    st\<lparr>rs_written := rs_written st @
          [Write content_block_stop, Write message_delta, Write message_stop, End None]\<rparr>"

definition on_error :: "relay_state \<Rightarrow> relay_state" where
  "on_error st = st\<lparr>rs_written := rs_written st @ [End None]\<rparr>"

text \<open>
  What the upstream connection delivers: no response at all (the request's \<open>error\<close> event),
  or a response with a status, the reads of its body in order, and how the body closes
  (\<open>end\<close>, \<open>error\<close>, or neither yet).
\<close>

datatype closing = Ended | Errored | Open

datatype upstream = ConnectFailed | Response "nat option" "buffer list" closing

definition statusCode_or_200 :: "nat option \<Rightarrow> nat" where
  "statusCode_or_200 status = (case status of Some n \<Rightarrow> if n \<noteq> 0 then n else 200 | None \<Rightarrow> 200)"

definition stream_open :: "nat option \<Rightarrow> jsstring option \<Rightarrow> relay_state" where
  "stream_open status x_model =
    \<lparr>rs_buffer = [],
     rs_written =
       [WriteHead (statusCode_or_200 status)
          [(js ''Content-Type'', js ''text/event-stream''),
           (js ''Cache-Control'', js ''no-cache''),
           (js ''Connection'', js ''keep-alive'')],
        Write (message_start x_model),
        Write content_block_start],
     rs_parsed = []\<rparr>"

definition stream_close :: "closing \<Rightarrow> relay_state \<Rightarrow> relay_state" where
  "stream_close c st = (case c of Ended \<Rightarrow> on_end st | Errored \<Rightarrow> on_error st | Open \<Rightarrow> st)"

definition relay_stream ::
  "(jsstring \<Rightarrow> OpenAIStreamChunk option) \<Rightarrow> nat option \<Rightarrow> jsstring option \<Rightarrow>
   buffer list \<Rightarrow> closing \<Rightarrow> relay_state" where
  "relay_stream parse status x_model reads c =
    stream_close c (foldl (on_data parse) (stream_open status x_model) reads)"

text \<open>
  The non-streaming branch: \<open>data += chunk\<close> on every read, and on \<open>end\<close> one parse, one
  translation and one JSON answer, or 502 when the parse throws. \<open>parse_response\<close> stands for
  \<open>JSON.parse\<close> read as an \<open>OpenAIResponse\<close>.
\<close>

definition relay_json ::
  "(jsstring \<Rightarrow> OpenAIResponse option) \<Rightarrow> OpenAIRequest \<Rightarrow> nat option \<Rightarrow>
   buffer list \<Rightarrow> closing \<Rightarrow> res_action list" where
  "relay_json parse_response openAIReq status reads c =
    (let data = foldl (\<lambda>data chunk. data @ toString chunk) [] reads in
     case c of
       Ended \<Rightarrow>
         (case parse_response data of
            Some openAIResp \<Rightarrow>
              (let anthropicResp = translateOpenAIToAnthropic openAIResp in
               [WriteHead (statusCode_or_200 status) [(js ''Content-Type'', js ''application/json'')],
                End (Some (MessageBody (resp_id openAIResp) (at_content anthropicResp)
                             (or_model openAIReq) (at_stop_reason anthropicResp)
                             (at_usage anthropicResp)))])
          | None \<Rightarrow>
              [WriteHead 502 [(js ''Content-Type'', js ''application/json'')],
               End (Some (JsonBody (error_body (js ''api_error'')
                                      (js ''Error parsing upstream response''))))])
     | _ \<Rightarrow> [])"

definition forwardToCodex ::
  "(jsstring \<Rightarrow> OpenAIStreamChunk option) \<Rightarrow> (jsstring \<Rightarrow> OpenAIResponse option) \<Rightarrow>
   request \<Rightarrow> OpenAIRequest \<Rightarrow> bool \<Rightarrow> upstream \<Rightarrow> res_action list" where
  "forwardToCodex parse parse_response originalReq openAIReq stream up =
    (case up of
       ConnectFailed \<Rightarrow>
         [WriteHead 502 [(js ''Content-Type'', js ''application/json'')],
          End (Some (JsonBody (error_body (js ''api_error'')
                                 (js ''Failed to connect to Codex API''))))]
     | Response status reads c \<Rightarrow>
         if \<not> stream then relay_json parse_response openAIReq status reads c
         else rs_written (relay_stream parse status (req_x_model originalReq) reads c))"

section \<open>Vocabulary of the stream properties\<close>

text \<open>
  A chunk carries a finish reason when its first choice has a truthy \<open>finish_reason\<close>; the
  delta text it carries is the string content of its first choice's delta (empty when there is
  no choice or no string content). The frame on a line is the chunk that \<open>JSON.parse\<close> yields
  for the payload of a \<open>data: \<close> line other than the \<open>[DONE]\<close> sentinel.
\<close>

definition finish_chunk :: "OpenAIStreamChunk \<Rightarrow> bool" where
  "finish_chunk chunk =
    (case chunk_choices chunk of [] \<Rightarrow> False | choice # _ \<Rightarrow> truthy_string (sc_finish_reason choice))"

definition delta_text :: "OpenAIStreamChunk \<Rightarrow> jsstring" where
  "delta_text chunk =
    (case chunk_choices chunk of
       [] \<Rightarrow> []
     | choice # _ \<Rightarrow> (case od_content (sc_delta choice) of Some (OText s) \<Rightarrow> s | _ \<Rightarrow> []))"

definition frame_of_line ::
  "(jsstring \<Rightarrow> OpenAIStreamChunk option) \<Rightarrow> jsstring \<Rightarrow> OpenAIStreamChunk option" where
  "frame_of_line parse line =
    (if startsWith line (js ''data: '') \<and> slice_str line 6 \<noteq> js ''[DONE]''
     then parse (slice_str line 6) else None)"

definition no_writes :: relay_state where
  "no_writes = \<lparr>rs_buffer = [], rs_written = [], rs_parsed = []\<rparr>"

text \<open>What the frame on one complete line makes the relay write.\<close>

definition frame_writes :: "OpenAIStreamChunk \<Rightarrow> res_action list" where
  "frame_writes chunk = (if \<not> finish_chunk chunk \<and> delta_text chunk \<noteq> []
          then [Write (content_block_delta (delta_text chunk))] else [])"

section \<open>Sample inputs\<close>

text \<open>
  Frames, parsers, requests and a logged-in world for the concrete runs below. \<open>sample_parse\<close>
  reads one-letter payloads; \<open>e_acute_parse\<close> reads the two payloads of the run with the
  character U+00E9 the way \<open>JSON.parse\<close> does, and \<open>e_acute_stream_parse\<close> reads the payload
  of a finish frame as well.
\<close>

definition text_chunk :: "jsstring \<Rightarrow> OpenAIStreamChunk" where
  "text_chunk t =
    \<lparr>chunk_id = js ''chatcmpl-1'', chunk_created = 0, chunk_model = js ''gpt-5.2-codex'',
     chunk_choices = [\<lparr>sc_index = 0,
                       sc_delta = \<lparr>od_role = None, od_content = Some (OText t)\<rparr>,
                       sc_finish_reason = None\<rparr>]\<rparr>"

definition finish_only_chunk :: "jsstring \<Rightarrow> OpenAIStreamChunk" where
  "finish_only_chunk reason =
    \<lparr>chunk_id = js ''chatcmpl-1'', chunk_created = 0, chunk_model = js ''gpt-5.2-codex'',
     chunk_choices = [\<lparr>sc_index = 0,
                       sc_delta = \<lparr>od_role = None, od_content = None\<rparr>,
                       sc_finish_reason = Some reason\<rparr>]\<rparr>"

definition sample_parse :: "jsstring \<Rightarrow> OpenAIStreamChunk option" where
  "sample_parse data =
    (if data = js ''A'' then Some (text_chunk (js ''Hi''))
     else if data = js ''B'' then Some (text_chunk [])
     else if data = js ''S'' then Some (finish_only_chunk (js ''stop''))
     else if data = js ''L'' then Some (finish_only_chunk (js ''length''))
     else None)"

definition e_acute_parse :: "jsstring \<Rightarrow> OpenAIStreamChunk option" where
  "e_acute_parse data =
    (if data = js ''{\"choices\":[{\"delta\":{\"content\":\"'' @ [0xE9] @ js ''\"}}]}''
     then Some (text_chunk [0xE9])
     else if data = js ''{\"choices\":[{\"delta\":{\"content\":\"'' @ [0xFFFD, 0xFFFD] @ js ''\"}}]}''
     then Some (text_chunk [0xFFFD, 0xFFFD])
     else None)"

definition e_acute_stream_parse :: "jsstring \<Rightarrow> OpenAIStreamChunk option" where
  "e_acute_stream_parse data =
    (if data = js ''{\"choices\":[{\"delta\":{},\"finish_reason\":\"stop\"}]}''
     then Some (finish_only_chunk (js ''stop''))
     else e_acute_parse data)"

definition sample_request :: AnthropicRequest where
  "sample_request =
    \<lparr>ar_model = js ''claude-sonnet-4-5-20250929'',
     ar_messages = [\<lparr>am_role = js ''user'', am_content = AText (js ''Y'')\<rparr>],
     ar_max_tokens = None, ar_temperature = None, ar_top_p = None, ar_top_k = None,
     ar_stream = None, ar_system = None, ar_tools = None\<rparr>"

definition parse_sample_request :: "jsstring \<Rightarrow> jsstring + AnthropicRequest" where
  "parse_sample_request body = Inr sample_request"

definition endpoint_offline :: "jsstring \<Rightarrow> http_answer" where
  "endpoint_offline refreshToken = RequestError (js ''connect ECONNREFUSED'')"

definition endpoint_html :: "jsstring \<Rightarrow> http_answer" where
  "endpoint_html refreshToken = Answer (Some 200) (js ''<html>Bad Gateway</html>'')"

definition sample_parse_tokens :: "jsstring \<Rightarrow> jsstring + TokenResponse" where
  "sample_parse_tokens data =
    (if data = js ''{\"id_token\":\"id\",\"access_token\":\"new\",\"refresh_token\":\"rt2\"}''
     then Inr \<lparr>tr_id_token = js ''id'', tr_access_token = js ''new'',
               tr_refresh_token = js ''rt2'', tr_expires_in = None\<rparr>
     else Inl (js ''Unexpected token < in JSON at position 0''))"

definition logged_in :: oauth_world where
  "logged_in =
    \<lparr>loadTokens = Some \<lparr>access_token = js ''at'', refresh_token = js ''rt'', expires_at = 1000000\<rparr>,
     now_at_check = 0, now_after_refresh = 0,
     token_endpoint = endpoint_offline, JSON_parse_tokens = sample_parse_tokens,
     writeFile_ok = True\<rparr>"


definition due_for_refresh :: oauth_world where
  "due_for_refresh =
    \<lparr>loadTokens = Some \<lparr>access_token = js ''at'', refresh_token = js ''rt'', expires_at = 1000000\<rparr>,
     now_at_check = 1000000 - 4 * 60 * 1000, now_after_refresh = 800000,
     token_endpoint = endpoint_html, JSON_parse_tokens = sample_parse_tokens,
     writeFile_ok = True\<rparr>"

definition chat_request :: "string \<Rightarrow> request" where
  "chat_request authorization =
    \<lparr>req_authorization = Some (js authorization), req_x_model = None,
     req_pathname = js ''/v1/messages'', req_body = js ''{}''\<rparr>"

section \<open>Model mapping\<close>

lemma mapModel_known:
  "mapModel (js ''claude-sonnet-4-5-20250929'') = ModelName (js ''gpt-5.2-codex'')"
  by (simp add: mapModel_def MODEL_MAP_get_def MODEL_MAP_def js_def)

lemma mapModel_listed: "map_of MODEL_MAP key = Some v \<Longrightarrow> mapModel key = ModelName v"
  by (auto simp: mapModel_def MODEL_MAP_get_def MODEL_MAP_def js_def split: if_splits)

lemma mapModel_unlisted:
  "map_of MODEL_MAP key = None \<Longrightarrow> key \<notin> set Object_prototype_keys \<Longrightarrow>
   mapModel key = ModelName (js ''gpt-5.2-codex'')"
  by (simp add: mapModel_def MODEL_MAP_get_def)

text \<open>
  C4. \<open>mapModel\<close> always returns a value and never throws, a listed identifier returns its
  entry (\<open>mapModel_known\<close>, \<open>mapModel_listed\<close>), and an identifier that is neither listed nor a
  property name of \<open>Object.prototype\<close> returns the default target (\<open>mapModel_unlisted\<close>). But
  the identifier \<open>constructor\<close> is not in the table and does not return the default: the read
  \<open>MODEL_MAP["constructor"]\<close> finds the member inherited from \<open>Object.prototype\<close>, which is
  truthy, so \<open>||\<close> returns it and the default is not consulted.
\<close>

theorem mapModel_inherited_key:
  "map_of MODEL_MAP (js ''constructor'') = None
   \<and> mapModel (js ''constructor'') = PrototypeMember (js ''constructor'')
   \<and> mapModel (js ''constructor'') \<noteq> ModelName (js ''gpt-5.2-codex'')"
  by (simp add: mapModel_def MODEL_MAP_get_def MODEL_MAP_def Object_prototype_keys_def js_def)

section \<open>Request translation\<close>

text \<open>
  C3, as stated, at the system instruction \<open>""\<close>: the test \<open>if (anthropicReq.system)\<close> is
  false for the empty string, so no system message is inserted and the message list is the
  user message alone.
\<close>

theorem empty_system_counterexample:
  "or_messages (translateAnthropicToOpenAI
      \<lparr>ar_model = js ''claude-sonnet-4-5-20250929'',
       ar_messages = [\<lparr>am_role = js ''user'', am_content = AText (js ''Y'')\<rparr>],
       ar_max_tokens = None, ar_temperature = None, ar_top_p = None, ar_top_k = None,
       ar_stream = None, ar_system = Some (js ''''), ar_tools = None\<rparr> None)
   = [\<lparr>om_role = js ''user'', om_content = OText (js ''Y'')\<rparr>]
   \<and> or_messages (translateAnthropicToOpenAI
      \<lparr>ar_model = js ''claude-sonnet-4-5-20250929'',
       ar_messages = [\<lparr>am_role = js ''user'', am_content = AText (js ''Y'')\<rparr>],
       ar_max_tokens = None, ar_temperature = None, ar_top_p = None, ar_top_k = None,
       ar_stream = None, ar_system = Some (js ''''), ar_tools = None\<rparr> None)
   \<noteq> [\<lparr>om_role = js ''system'', om_content = OText (js '''')\<rparr>,
       \<lparr>om_role = js ''user'', om_content = OText (js ''Y'')\<rparr>]"
  by (simp add: translateAnthropicToOpenAI_def translateMessage_def js_def)

text \<open>
  C3, amended. For every Source Request whose system instruction is a non-empty string \<open>X\<close>,
  the Target Request's message list is the message with role \<open>system\<close> and content \<open>X\<close>
  followed by the translated messages in order; with exactly one user message of plain
  string content \<open>Y\<close> it is exactly \<open>[{role: system, content: X}, {role: user, content: Y}]\<close>;
  and plain-string message contents are copied verbatim.
\<close>

theorem system_message_first:
  "ar_system req = Some X \<Longrightarrow> X \<noteq> [] \<Longrightarrow>
   or_messages (translateAnthropicToOpenAI req instr) =
     \<lparr>om_role = js ''system'', om_content = OText X\<rparr> # map translateMessage (ar_messages req)
   \<and> (ar_messages req = [\<lparr>am_role = js ''user'', am_content = AText Y\<rparr>] \<longrightarrow>
        or_messages (translateAnthropicToOpenAI req instr) =
          [\<lparr>om_role = js ''system'', om_content = OText X\<rparr>,
           \<lparr>om_role = js ''user'', om_content = OText Y\<rparr>])
   \<and> (\<forall>m \<in> set (ar_messages req). \<forall>s. am_content m = AText s \<longrightarrow>
          om_content (translateMessage m) = OText s)"
  by (simp add: translateAnthropicToOpenAI_def translateMessage_def js_def)

theorem system_message_first_witness:
  "or_messages (translateAnthropicToOpenAI
      \<lparr>ar_model = js ''claude-sonnet-4-5-20250929'',
       ar_messages = [\<lparr>am_role = js ''user'', am_content = AText (js ''Y'')\<rparr>],
       ar_max_tokens = None, ar_temperature = None, ar_top_p = None, ar_top_k = None,
       ar_stream = None, ar_system = Some (js ''X''), ar_tools = None\<rparr> None)
   = [\<lparr>om_role = js ''system'', om_content = OText (js ''X'')\<rparr>,
      \<lparr>om_role = js ''user'', om_content = OText (js ''Y'')\<rparr>]"
  using system_message_first [of
      "\<lparr>ar_model = js ''claude-sonnet-4-5-20250929'',
       ar_messages = [\<lparr>am_role = js ''user'', am_content = AText (js ''Y'')\<rparr>],
       ar_max_tokens = None, ar_temperature = None, ar_top_p = None, ar_top_k = None,
       ar_stream = None, ar_system = Some (js ''X''), ar_tools = None\<rparr>" "js ''X''" None "js ''Y''"]
  by (simp add: js_def translateMessage_def)

section \<open>Response translation\<close>



section \<open>The credential\<close>

text \<open>
  The branches of \<open>getValidAccessToken\<close>: with no credential loaded it returns absent and
  attempts no refresh; when \<open>now \<ge> expires_at - 5 minutes\<close> (so also when
  \<open>expires_at = now + 4 minutes\<close>) it calls \<open>refreshAccessToken\<close> with the stored refresh
  token; when that resolves and the new credential is written, it saves the new credential
  and returns the new access token; when it rejects, or the write fails, it returns absent;
  when it is never settled, \<open>getValidAccessToken\<close> never returns; otherwise it returns the
  stored access token without a refresh.
\<close>

lemma getValidAccessToken_cases:
  "(loadTokens w = None \<longrightarrow>
      getValidAccessToken w = \<lparr>result = Returns None, oauth_calls = [LoadTokens]\<rparr>)
   \<and> (\<forall>t. loadTokens w = Some t \<and> now_at_check w \<ge> expires_at t - 5 * 60 * 1000 \<longrightarrow>
        take 2 (oauth_calls (getValidAccessToken w)) =
          [LoadTokens, RefreshAccessToken (refresh_token t)]
        \<and> (\<forall>e. refreshAccessToken w (refresh_token t) = Rejected e \<longrightarrow>
              getValidAccessToken w =
                \<lparr>result = Returns None,
                 oauth_calls = [LoadTokens, RefreshAccessToken (refresh_token t)]\<rparr>)
        \<and> (\<forall>e. refreshAccessToken w (refresh_token t) = Unsettled e \<longrightarrow>
              getValidAccessToken w =
                \<lparr>result = NeverReturns e,
                 oauth_calls = [LoadTokens, RefreshAccessToken (refresh_token t)]\<rparr>)
        \<and> (\<forall>r. refreshAccessToken w (refresh_token t) = Resolved r \<and> writeFile_ok w \<longrightarrow>
              getValidAccessToken w =
                \<lparr>result = Returns (Some (tr_access_token r)),
                 oauth_calls =
                   [LoadTokens, RefreshAccessToken (refresh_token t),
                    SaveTokens \<lparr>access_token = tr_access_token r,
                                refresh_token = tr_refresh_token r,
                                expires_at = now_after_refresh w +
                                  (case tr_expires_in r of None \<Rightarrow> 3600 | Some e \<Rightarrow> e) * 1000\<rparr>]\<rparr>)
        \<and> (\<forall>r. refreshAccessToken w (refresh_token t) = Resolved r \<and> \<not> writeFile_ok w \<longrightarrow>
              result (getValidAccessToken w) = Returns None))
   \<and> (\<forall>t. loadTokens w = Some t \<and> now_at_check w < expires_at t - 5 * 60 * 1000 \<longrightarrow>
        getValidAccessToken w =
          \<lparr>result = Returns (Some (access_token t)), oauth_calls = [LoadTokens]\<rparr>)
   \<and> (\<forall>t. loadTokens w = Some t \<and> expires_at t = now_at_check w + 4 * 60 * 1000 \<longrightarrow>
        RefreshAccessToken (refresh_token t) \<in> set (oauth_calls (getValidAccessToken w)))"
  by (auto simp: getValidAccessToken_def Let_def split: option.splits refresh_promise.splits)

lemma refresh_rejects_on_status:
  "token_endpoint w rt = Answer statusCode data \<Longrightarrow> statusCode \<noteq> Some 200 \<Longrightarrow>
   refreshAccessToken w rt = Rejected (TokenRefreshFailed statusCode data)"
  by (simp add: refreshAccessToken_def)

lemma refresh_unsettled_on_unparsable_answer:
  "token_endpoint w rt = Answer (Some 200) data \<Longrightarrow> JSON_parse_tokens w data = Inl e \<Longrightarrow>
   refreshAccessToken w rt = Unsettled e"
  by (simp add: refreshAccessToken_def)

text \<open>
  C5. At a stored credential with \<open>expires_at = now + 4 minutes\<close>, the refresh is attempted;
  when the token endpoint answers it with status 200 and a body that is not JSON (here an
  HTML page), \<open>JSON.parse\<close> throws inside the \<open>end\<close> listener of \<open>refreshAccessToken\<close>, outside
  the promise, which is never settled: the \<open>catch\<close> of \<open>getValidAccessToken\<close> is not reached
  and it does not return absent, it never returns, with the exception uncaught.
\<close>

theorem unparsable_refresh_answer_never_returns:
  "loadTokens due_for_refresh =
     Some \<lparr>access_token = js ''at'', refresh_token = js ''rt'', expires_at = 1000000\<rparr>
   \<and> now_at_check due_for_refresh + 4 * 60 * 1000 = 1000000
   \<and> token_endpoint due_for_refresh (js ''rt'') =
       Answer (Some 200) (js ''<html>Bad Gateway</html>'')
   \<and> refreshAccessToken due_for_refresh (js ''rt'') =
       Unsettled (js ''Unexpected token < in JSON at position 0'')
   \<and> getValidAccessToken due_for_refresh =
       \<lparr>result = NeverReturns (js ''Unexpected token < in JSON at position 0''),
        oauth_calls = [LoadTokens, RefreshAccessToken (js ''rt'')]\<rparr>
   \<and> result (getValidAccessToken due_for_refresh) \<noteq> Returns None"
  by (simp add: getValidAccessToken_def refreshAccessToken_def due_for_refresh_def
      endpoint_html_def sample_parse_tokens_def js_def)

section \<open>Line buffering\<close>

lemma split_newline_nonempty: "split_newline s \<noteq> []"
  by (induction s) (auto split: list.splits)

lemma split_newline_append:
  "split_newline (x @ y) = butlast (split_newline x) @ split_newline (last (split_newline x) @ y)"
proof (induction x)
  case Nil
  then show ?case by simp
next
  case (Cons c xs)
  show ?case
  proof (cases "c = 0x0A")
    case True
    then show ?thesis using Cons split_newline_nonempty[of xs] by simp
  next
    case False
    obtain s ss where sp: "split_newline xs = s # ss"
      using split_newline_nonempty[of xs] by (cases "split_newline xs") auto
    show ?thesis
    proof (cases ss)
      case Nil
      then show ?thesis using False sp Cons by simp
    next
      case (Cons s' ss')
      then show ?thesis using False sp Cons.IH by simp
    qed
  qed
qed

lemma last_split_newline_no_lf: "0x0A \<notin> set (last (split_newline s))"
  by (induction s) (auto split: list.splits simp: split_newline_nonempty)

lemma split_newline_no_lf: "0x0A \<notin> set s \<Longrightarrow> split_newline s = [s]"
  by (induction s) auto

lemma split_newline_line: "0x0A \<notin> set l \<Longrightarrow> split_newline (l @ 0x0A # rest) = l # split_newline rest"
  by (induction l) auto

lemma split_newline_lines:
  "\<forall>l \<in> set lines. 0x0A \<notin> set l \<Longrightarrow>
   split_newline (concat (map (\<lambda>l. l @ [0x0A]) lines) @ r) = lines @ split_newline r"
  by (induction lines) (auto simp: split_newline_line)

lemma process_line_buffer:
  "process_line parse (st\<lparr>rs_buffer := b\<rparr>) l = (process_line parse st l)\<lparr>rs_buffer := b\<rparr>"
  by (simp add: process_line_def Let_def split: option.splits)

lemma foldl_process_line_buffer:
  "foldl (process_line parse) (st\<lparr>rs_buffer := b\<rparr>) ls = (foldl (process_line parse) st ls)\<lparr>rs_buffer := b\<rparr>"
  by (induction ls arbitrary: st) (simp_all add: process_line_buffer)

lemma rs_buffer_process_line: "rs_buffer (process_line parse st l) = rs_buffer st"
  by (simp add: process_line_def Let_def split: option.splits)

lemma rs_buffer_foldl_process_line: "rs_buffer (foldl (process_line parse) st ls) = rs_buffer st"
  by (induction ls arbitrary: st) (simp_all add: rs_buffer_process_line)

lemma on_data_eq:
  "on_data parse st chunk =
     foldl (process_line parse) (st\<lparr>rs_buffer := last (split_newline (rs_buffer st @ toString chunk))\<rparr>)
       (butlast (split_newline (rs_buffer st @ toString chunk)))"
  by (simp add: on_data_def pop_def split_newline_nonempty Let_def)

lemma foldl_on_data:
  "0x0A \<notin> set (rs_buffer st) \<Longrightarrow> foldl (on_data parse) st reads =
     foldl (process_line parse)
       (st\<lparr>rs_buffer := last (split_newline (rs_buffer st @ concat (map toString reads)))\<rparr>)
       (butlast (split_newline (rs_buffer st @ concat (map toString reads))))"
proof (induction reads arbitrary: st)
  case Nil
  then have "split_newline (rs_buffer st) = [rs_buffer st]" by (simp add: split_newline_no_lf)
  then show ?case by simp
next
  case (Cons r rs)
  let ?t = "rs_buffer st @ toString r"
  let ?st1 = "on_data parse st r"
  have b1: "rs_buffer ?st1 = last (split_newline ?t)"
    by (simp add: on_data_eq rs_buffer_foldl_process_line)
  have sp: "split_newline (?t @ concat (map toString rs)) =
        butlast (split_newline ?t) @ split_newline (last (split_newline ?t) @ concat (map toString rs))"
    by (rule split_newline_append)
  have "foldl (on_data parse) st (r # rs) = foldl (on_data parse) ?st1 rs" by simp
  also have "\<dots> = foldl (process_line parse)
       (?st1\<lparr>rs_buffer := last (split_newline (rs_buffer ?st1 @ concat (map toString rs)))\<rparr>)
       (butlast (split_newline (rs_buffer ?st1 @ concat (map toString rs))))"
    by (rule Cons.IH) (simp add: b1 last_split_newline_no_lf)
  finally show ?case
    using sp b1
    apply (simp add: butlast_append split_newline_nonempty)
    apply (simp add: on_data_eq foldl_process_line_buffer)
    done
qed

lemma relay_stream_eq:
  "relay_stream parse status x_model reads c =
     stream_close c (foldl (process_line parse)
       ((stream_open status x_model)\<lparr>rs_buffer := last (split_newline (concat (map toString reads)))\<rparr>)
       (butlast (split_newline (concat (map toString reads)))))"
  using foldl_on_data[of "stream_open status x_model" parse reads]
  by (simp add: relay_stream_def stream_open_def)

lemma relay_stream_text:
  "concat (map toString reads1) = concat (map toString reads2) \<Longrightarrow>
   relay_stream parse status x_model reads1 c = relay_stream parse status x_model reads2 c"
  by (simp add: relay_stream_eq)

lemma ascii_byte: "(b::8 word) < 0x80 \<Longrightarrow> unat b \<le> 0x7F"
  by (simp add: word_less_nat_alt)

lemma of_nat_unat_ucast: "(of_nat (unat (b::8 word)) :: 16 word) = ucast b"
  by (simp add: of_nat_unat)

lemma utf8_decode_ascii:
  "\<forall>b \<in> set bytes. b < 0x80 \<Longrightarrow> utf8_decode 0 cp lo hi bytes = map ucast bytes"
  by (induction bytes arbitrary: cp lo hi) (simp_all add: Let_def ascii_byte of_nat_unat_ucast)

lemma toString_ascii: "\<forall>b \<in> set bytes. b < 0x80 \<Longrightarrow> toString bytes = map ucast bytes"
  by (simp add: toString_def utf8_decode_ascii)

lemma concat_toString_ascii:
  "\<forall>r \<in> set reads. \<forall>b \<in> set r. b < 0x80 \<Longrightarrow> concat (map toString reads) = map ucast (concat reads)"
  by (induction reads) (simp_all add: toString_ascii)

lemma relay_stream_ascii:
  assumes "concat reads1 = concat reads2" "\<forall>b \<in> set (concat reads1). b < 0x80"
  shows "relay_stream parse status x_model reads1 c = relay_stream parse status x_model reads2 c"
proof -
  have "concat (map toString reads1) = map ucast (concat reads1)"
    using assms(2) by (intro concat_toString_ascii) auto
  moreover have "concat (map toString reads2) = map ucast (concat reads2)"
    using assms by (intro concat_toString_ascii) auto
  ultimately show ?thesis using assms(1) by (simp add: relay_stream_text)
qed

section \<open>What the relay writes\<close>

lemma rs_written_process_line:
  "rs_written (process_line parse st l) = rs_written st @ rs_written (process_line parse no_writes l)"
  by (simp add: process_line_def no_writes_def Let_def split: option.splits)

lemma rs_written_foldl_process_line:
  "rs_written (foldl (process_line parse) st ls) =
     rs_written st @ concat (map (\<lambda>l. rs_written (process_line parse no_writes l)) ls)"
proof (induction ls arbitrary: st)
  case Nil
  show ?case by simp
next
  case (Cons l ls)
  show ?case
    by (simp add: Cons.IH [of "process_line parse st l"] rs_written_process_line [of parse st l])
qed

lemma translated_delta:
  "(case translateOpenAIStreamChunk chunk of
      None \<Rightarrow> []
    | Some translated \<Rightarrow>
        if sig_type translated = js ''content_block_delta'' \<and> truthy_string (sig_delta_text translated)
        then [Write (content_block_delta (case sig_delta_text translated of Some t \<Rightarrow> t | None \<Rightarrow> []))]
        else [])
   = (if \<not> finish_chunk chunk \<and> delta_text chunk \<noteq> []
      then [Write (content_block_delta (delta_text chunk))] else [])"
proof (cases "chunk_choices chunk")
  case Nil
  then show ?thesis
    by (simp add: translateOpenAIStreamChunk_def finish_chunk_def delta_text_def)
next
  case (Cons choice rest)
  have ne: "js ''message_stop'' \<noteq> js ''content_block_delta''" by (simp add: js_def)
  show ?thesis
  proof (cases "od_content (sc_delta choice)")
    case None
    then show ?thesis using Cons ne
      by (simp add: translateOpenAIStreamChunk_def finish_chunk_def delta_text_def)
  next
    case (Some content)
    then show ?thesis using Cons ne
      by (cases content) (simp_all add: translateOpenAIStreamChunk_def finish_chunk_def delta_text_def)
  qed
qed

lemma line_writes:
  "rs_written (process_line parse no_writes l) =
     (case frame_of_line parse l of
        None \<Rightarrow> []
      | Some chunk \<Rightarrow>
          if \<not> finish_chunk chunk \<and> delta_text chunk \<noteq> []
          then [Write (content_block_delta (delta_text chunk))] else [])"
proof (cases "frame_of_line parse l")
  case None
  then show ?thesis
    by (auto simp: process_line_def frame_of_line_def no_writes_def Let_def split: if_splits)
next
  case (Some chunk)
  then have d: "startsWith l (js ''data: '')" "slice_str l 6 \<noteq> js ''[DONE]''" "parse (slice_str l 6) = Some chunk"
    by (auto simp: frame_of_line_def split: if_splits)
  have "rs_written (process_line parse no_writes l) =
      (case translateOpenAIStreamChunk chunk of
      None \<Rightarrow> []
    | Some translated \<Rightarrow>
        if sig_type translated = js ''content_block_delta'' \<and> truthy_string (sig_delta_text translated)
        then [Write (content_block_delta (case sig_delta_text translated of Some t \<Rightarrow> t | None \<Rightarrow> []))]
        else [])"
    using d by (simp add: process_line_def no_writes_def Let_def split: option.splits)
  then show ?thesis using Some by (simp add: translated_delta)
qed

lemma concat_line_writes:
  "concat (map (\<lambda>l. rs_written (process_line parse no_writes l)) ls) =
     concat (map frame_writes (List.map_filter (frame_of_line parse) ls))"
  by (induction ls) (auto simp: line_writes List.map_filter_simps frame_writes_def split: option.splits)

lemma frame_writes_content:
  "\<forall>c \<in> set cs. \<not> finish_chunk c \<Longrightarrow>
   concat (map frame_writes cs) =
     map (\<lambda>t. Write (content_block_delta t)) (filter (\<lambda>t. t \<noteq> []) (map delta_text cs))"
  by (induction cs) (auto simp: frame_writes_def)

lemma stream_written:
  "rs_written (relay_stream parse status x_model reads c) =
     rs_written (stream_open status x_model)
     @ concat (map frame_writes (List.map_filter (frame_of_line parse)
          (butlast (split_newline (concat (map toString reads))))))
     @ (case c of Ended \<Rightarrow> [Write content_block_stop, Write message_delta, Write message_stop, End None]
        | Errored \<Rightarrow> [End None] | Open \<Rightarrow> [])"
  by (cases c)
     (simp_all add: relay_stream_eq stream_close_def on_end_def on_error_def
        rs_written_foldl_process_line concat_line_writes)

text \<open>
  The framing on the decoded text. When the reads decode to complete lines whose frames are
  zero or more chunks without a finish reason followed by one chunk with a finish reason,
  and the stream is closed by the \<open>end\<close> event, the relay writes the response head, one
  \<open>message_start\<close>, one \<open>content_block_start\<close>, one \<open>content_block_delta\<close> for each chunk
  whose decoded delta text is non-empty, in arrival order, then one \<open>content_block_stop\<close>,
  one \<open>message_delta\<close> and one \<open>message_stop\<close>, and ends the response. For a stream of
  ASCII bytes the decoded text is the bytes, however they are cut into reads.
\<close>

lemma well_formed_text_events:
  assumes "\<forall>l \<in> set lines. 0x0A \<notin> set l"
    and "concat (map toString reads) = concat (map (\<lambda>l. l @ [0x0A]) lines)"
    and "List.map_filter (frame_of_line parse) lines = cs @ [f]"
    and "\<forall>c \<in> set cs. \<not> finish_chunk c"
    and "finish_chunk f"
  shows "rs_written (relay_stream parse status x_model reads Ended) =
     [WriteHead (statusCode_or_200 status)
        [(js ''Content-Type'', js ''text/event-stream''),
         (js ''Cache-Control'', js ''no-cache''),
         (js ''Connection'', js ''keep-alive'')],
      Write (message_start x_model),
      Write content_block_start]
     @ map (\<lambda>t. Write (content_block_delta t)) (filter (\<lambda>t. t \<noteq> []) (map delta_text cs))
     @ [Write content_block_stop, Write message_delta, Write message_stop, End None]"
proof -
  have "split_newline (concat (map toString reads)) = lines @ [[]]"
    using split_newline_lines [OF assms(1), of "[]"] assms(2) by simp
  then have "butlast (split_newline (concat (map toString reads))) = lines"
    by simp
  moreover have "concat (map frame_writes (cs @ [f])) =
      map (\<lambda>t. Write (content_block_delta t)) (filter (\<lambda>t. t \<noteq> []) (map delta_text cs))"
    using assms(4,5) by (simp add: frame_writes_content) (simp add: frame_writes_def)
  ultimately show ?thesis
    using assms(3) by (simp add: stream_written stream_open_def)
qed

lemma well_formed_ascii_stream_events:
  assumes "\<forall>r \<in> set reads. \<forall>b \<in> set r. b < 0x80"
    and "\<forall>l \<in> set lines. 0x0A \<notin> set l"
    and "map ucast (concat reads) = concat (map (\<lambda>l. l @ [0x0A]) lines)"
    and "List.map_filter (frame_of_line parse) lines = cs @ [f]"
    and "\<forall>c \<in> set cs. \<not> finish_chunk c"
    and "finish_chunk f"
  shows "rs_written (relay_stream parse status x_model reads Ended) =
     [WriteHead (statusCode_or_200 status)
        [(js ''Content-Type'', js ''text/event-stream''),
         (js ''Cache-Control'', js ''no-cache''),
         (js ''Connection'', js ''keep-alive'')],
      Write (message_start x_model),
      Write content_block_start]
     @ map (\<lambda>t. Write (content_block_delta t)) (filter (\<lambda>t. t \<noteq> []) (map delta_text cs))
     @ [Write content_block_stop, Write message_delta, Write message_stop, End None]"
proof -
  have "concat (map toString reads) = concat (map (\<lambda>l. l @ [0x0A]) lines)"
    using assms(1,3) by (simp add: concat_toString_ascii)
  then show ?thesis
    by (rule well_formed_text_events [OF assms(2) _ assms(4,5,6)])
qed

lemma frame_writes_deltas:
  "\<exists>ts. concat (map frame_writes fs) = map (\<lambda>t. Write (content_block_delta t)) ts"
proof (induction fs)
  case Nil
  show ?case by simp
next
  case (Cons f fs)
  then obtain ts where ts: "concat (map frame_writes fs) = map (\<lambda>t. Write (content_block_delta t)) ts"
    by blast
  show ?case
  proof (cases "\<not> finish_chunk f \<and> delta_text f \<noteq> []")
    case True
    then have "concat (map frame_writes (f # fs)) = map (\<lambda>t. Write (content_block_delta t)) (delta_text f # ts)"
      using ts by (simp add: frame_writes_def)
    then show ?thesis by blast
  next
    case False
    then have "concat (map frame_writes (f # fs)) = map (\<lambda>t. Write (content_block_delta t)) ts"
      using ts by (auto simp: frame_writes_def)
    then show ?thesis by blast
  qed
qed

lemma delta_not_closing:
  "content_block_delta t \<noteq> content_block_stop"
  "content_block_delta t \<noteq> message_delta"
  "content_block_delta t \<noteq> message_stop"
  by (simp_all add: content_block_delta_def content_block_stop_def message_delta_def message_stop_def js_def)

lemma opening_not_closing:
  "message_start m \<noteq> content_block_stop"
  "message_start m \<noteq> message_delta"
  "message_start m \<noteq> message_stop"
  "content_block_start \<noteq> content_block_stop"
  "content_block_start \<noteq> message_delta"
  "content_block_start \<noteq> message_stop"
  "content_block_stop \<noteq> message_delta"
  "content_block_stop \<noteq> message_stop"
  "message_delta \<noteq> message_stop"
  "message_delta \<noteq> content_block_stop"
  "message_stop \<noteq> content_block_stop"
  "message_stop \<noteq> message_delta"
  by (simp_all add: message_start_def content_block_start_def content_block_stop_def message_delta_def message_stop_def js_def)

lemma count_list_deltas:
  "count_list (map (\<lambda>t. Write (content_block_delta t)) ts) (Write content_block_stop) = 0"
  "count_list (map (\<lambda>t. Write (content_block_delta t)) ts) (Write message_delta) = 0"
  "count_list (map (\<lambda>t. Write (content_block_delta t)) ts) (Write message_stop) = 0"
  by (induction ts) (simp_all add: delta_not_closing)

lemma finish_line_no_write:
  assumes "frame_of_line parse line = Some chunk" and "finish_chunk chunk"
  shows "rs_written (process_line parse st line) = rs_written st"
  using assms rs_written_process_line [of parse st line] by (simp add: line_writes)

text \<open>
  C9. A line whose frame carries a finish reason makes the relay write nothing. For every
  sequence of reads, whatever frames they hold, the \<open>data\<close> handler writes only
  \<open>content_block_delta\<close> events after the opening, none of the closing events; the \<open>end\<close>
  event appends \<open>content_block_stop\<close>, \<open>message_delta\<close>, \<open>message_stop\<close> and ends the response,
  so each closing event is written exactly once however many finish-reason chunks arrived,
  and an \<open>error\<close> event ends the response without them.
\<close>

theorem closing_sequence_once:
  "(\<forall>line chunk st. frame_of_line parse line = Some chunk \<and> finish_chunk chunk \<longrightarrow>
       rs_written (process_line parse st line) = rs_written st)
   \<and> (\<exists>ts.
        rs_written (foldl (on_data parse) (stream_open status x_model) reads) =
          [WriteHead (statusCode_or_200 status)
             [(js ''Content-Type'', js ''text/event-stream''),
              (js ''Cache-Control'', js ''no-cache''),
              (js ''Connection'', js ''keep-alive'')],
           Write (message_start x_model),
           Write content_block_start]
          @ map (\<lambda>t. Write (content_block_delta t)) ts
        \<and> rs_written (relay_stream parse status x_model reads Ended) =
          rs_written (foldl (on_data parse) (stream_open status x_model) reads)
          @ [Write content_block_stop, Write message_delta, Write message_stop, End None]
        \<and> rs_written (relay_stream parse status x_model reads Errored) =
          rs_written (foldl (on_data parse) (stream_open status x_model) reads) @ [End None])
   \<and> count_list (rs_written (relay_stream parse status x_model reads Ended)) (Write content_block_stop) = 1
   \<and> count_list (rs_written (relay_stream parse status x_model reads Ended)) (Write message_delta) = 1
   \<and> count_list (rs_written (relay_stream parse status x_model reads Ended)) (Write message_stop) = 1
   \<and> count_list (rs_written (foldl (on_data parse) (stream_open status x_model) reads)) (Write content_block_stop) = 0
   \<and> count_list (rs_written (foldl (on_data parse) (stream_open status x_model) reads)) (Write message_delta) = 0
   \<and> count_list (rs_written (foldl (on_data parse) (stream_open status x_model) reads)) (Write message_stop) = 0"
proof -
  let ?fs = "List.map_filter (frame_of_line parse) (butlast (split_newline (concat (map toString reads))))"
  let ?opening = "[WriteHead (statusCode_or_200 status)
             [(js ''Content-Type'', js ''text/event-stream''),
              (js ''Cache-Control'', js ''no-cache''),
              (js ''Connection'', js ''keep-alive'')],
           Write (message_start x_model),
           Write content_block_start]"
  obtain ts where ts: "concat (map frame_writes ?fs) = map (\<lambda>t. Write (content_block_delta t)) ts"
    using frame_writes_deltas by blast
  have run: "foldl (on_data parse) (stream_open status x_model) reads =
      relay_stream parse status x_model reads Open"
    by (simp add: relay_stream_def stream_close_def)
  have w_open: "rs_written (foldl (on_data parse) (stream_open status x_model) reads) =
      ?opening @ map (\<lambda>t. Write (content_block_delta t)) ts"
    unfolding run using ts by (simp add: stream_written stream_open_def)
  have w_end: "rs_written (relay_stream parse status x_model reads Ended) =
      rs_written (foldl (on_data parse) (stream_open status x_model) reads)
      @ [Write content_block_stop, Write message_delta, Write message_stop, End None]"
    unfolding run by (simp add: stream_written)
  have w_err: "rs_written (relay_stream parse status x_model reads Errored) =
      rs_written (foldl (on_data parse) (stream_open status x_model) reads) @ [End None]"
    unfolding run by (simp add: stream_written)
  have c0: "count_list (rs_written (foldl (on_data parse) (stream_open status x_model) reads)) (Write content_block_stop) = 0"
    "count_list (rs_written (foldl (on_data parse) (stream_open status x_model) reads)) (Write message_delta) = 0"
    "count_list (rs_written (foldl (on_data parse) (stream_open status x_model) reads)) (Write message_stop) = 0"
    by (simp_all add: w_open count_list_deltas opening_not_closing)
  have c1: "count_list (rs_written (relay_stream parse status x_model reads Ended)) (Write content_block_stop) = 1"
    "count_list (rs_written (relay_stream parse status x_model reads Ended)) (Write message_delta) = 1"
    "count_list (rs_written (relay_stream parse status x_model reads Ended)) (Write message_stop) = 1"
    by (simp_all add: w_end c0 opening_not_closing)
  have fin: "\<forall>line chunk st. frame_of_line parse line = Some chunk \<and> finish_chunk chunk \<longrightarrow>
       rs_written (process_line parse st line) = rs_written st"
    using finish_line_no_write by blast
  show ?thesis
    using fin w_open w_end w_err c0 c1 by blast
qed

theorem closing_sequence_once_witness:
  "rs_written (process_line sample_parse (stream_open None None) (js ''data: S'')) =
     rs_written (stream_open None None)
   \<and> count_list (rs_written (relay_stream sample_parse None None
        [ascii ''data: S'' @ [0x0A] @ ascii ''data: A'' @ [0x0A] @ ascii ''data: L'' @ [0x0A]] Ended))
        (Write message_stop) = 1"
proof -
  have h: "frame_of_line sample_parse (js ''data: S'') = Some (finish_only_chunk (js ''stop''))
      \<and> finish_chunk (finish_only_chunk (js ''stop''))"
    by (simp add: frame_of_line_def startsWith_def slice_str_def sample_parse_def finish_chunk_def
        finish_only_chunk_def js_def)
  show ?thesis
    using h closing_sequence_once [of sample_parse None None
        "[ascii ''data: S'' @ [0x0A] @ ascii ''data: A'' @ [0x0A] @ ascii ''data: L'' @ [0x0A]]"]
    by blast
qed

text \<open>
  C6. At the stream whose only frame finishes with reason \<open>length\<close>, the \<open>message_delta\<close>
  written at the close carries the stop reason \<open>end_turn\<close>, with the usage placeholder
  \<open>output_tokens: 0\<close>: the \<open>end\<close> handler writes the constant \<open>end_turn\<close> and the finish
  reason of the upstream frame is never read. The table of the non-streaming path maps
  \<open>length\<close> to \<open>max_tokens\<close>.
\<close>

theorem length_finish_reported_as_end_turn:
  "rs_written (relay_stream sample_parse None None [ascii ''data: L'' @ [0x0A]] Ended) =
     [WriteHead 200
        [(js ''Content-Type'', js ''text/event-stream''),
         (js ''Cache-Control'', js ''no-cache''),
         (js ''Connection'', js ''keep-alive'')],
      Write (message_start None),
      Write content_block_start,
      Write content_block_stop,
      Write (Event (js ''message_delta'')
        (JObj [(js ''type'', JStr (js ''message_delta'')),
               (js ''delta'', JObj [(js ''stop_reason'', JStr (js ''end_turn'')),
                                    (js ''stop_sequence'', JNull)]),
               (js ''usage'', JObj [(js ''output_tokens'', JNum 0)])])),
      Write message_stop,
      End None]
   \<and> frame_of_line sample_parse (js ''data: L'') = Some (finish_only_chunk (js ''length''))
   \<and> stop_reason_of (Some (js ''length'')) = Some (js ''max_tokens'')"
  by (simp add: relay_stream_def stream_open_def stream_close_def on_end_def on_data_def
      toString_def ascii_def js_def pop_def process_line_def startsWith_def slice_str_def Let_def
      sample_parse_def finish_only_chunk_def translateOpenAIStreamChunk_def message_delta_def
      statusCode_or_200_def frame_of_line_def stop_reason_of_def)

section \<open>Splitting the bytes across reads\<close>

text \<open>
  The newline buffering does not depend on where the decoded text was cut (\<open>relay_stream_text\<close>),
  so the relay does not depend on the split of a stream of ASCII bytes (\<open>relay_stream_ascii\<close>);
  one data line cut in two reads is parsed once, as one frame.
\<close>

lemma split_read_one_frame:
  assumes "\<forall>b \<in> set bytes. b < 0x80"
  shows "relay_stream parse status x_model [take k bytes, drop k bytes] c =
         relay_stream parse status x_model [bytes] c"
proof (rule relay_stream_ascii)
  show "concat [take k bytes, drop k bytes] = concat [bytes]" by simp
  show "\<forall>b \<in> set (concat [take k bytes, drop k bytes]). b < 0x80"
    using assms by (auto dest: in_set_takeD in_set_dropD)
qed

lemma data_line_in_two_reads:
  "rs_parsed (relay_stream parse status x_model
      [ascii ''data: {\"a'', ascii ''\":1}'' @ [0x0A]] c) = [js ''{\"a\":1}'']"
  by (cases c)
     (simp_all add: relay_stream_def stream_open_def stream_close_def on_end_def on_error_def
        on_data_def toString_def ascii_def js_def pop_def process_line_def startsWith_def
        slice_str_def Let_def split: option.splits)

text \<open>
  C2. At the stream whose one data line carries the character U+00E9 (the bytes C3 A9):
  delivered in one read, the payload handed to \<open>JSON.parse\<close> holds U+00E9 and the delta
  written carries it; delivered in two reads that part between the two bytes of the
  character, the payload holds U+FFFD U+FFFD instead, and so does the delta written. Each
  read is decoded on its own by \<open>chunk.toString()\<close> before it reaches the buffer, so the
  parsed frame depends on where the bytes were split.
\<close>

theorem split_inside_character_changes_frame:
  "rs_parsed (relay_stream e_acute_parse None None
      [ascii ''data: {\"choices\":[{\"delta\":{\"content\":\"'' @ [0xC3, 0xA9] @ ascii ''\"}}]}'' @ [0x0A]]
      Ended)
   = [js ''{\"choices\":[{\"delta\":{\"content\":\"'' @ [0xE9] @ js ''\"}}]}'']
   \<and> rs_parsed (relay_stream e_acute_parse None None
      [ascii ''data: {\"choices\":[{\"delta\":{\"content\":\"'' @ [0xC3],
       [0xA9] @ ascii ''\"}}]}'' @ [0x0A]]
      Ended)
   = [js ''{\"choices\":[{\"delta\":{\"content\":\"'' @ [0xFFFD, 0xFFFD] @ js ''\"}}]}'']
   \<and> rs_written (relay_stream e_acute_parse None None
      [ascii ''data: {\"choices\":[{\"delta\":{\"content\":\"'' @ [0xC3, 0xA9] @ ascii ''\"}}]}'' @ [0x0A]]
      Open)
   = rs_written (stream_open None None) @ [Write (content_block_delta [0xE9])]
   \<and> rs_written (relay_stream e_acute_parse None None
      [ascii ''data: {\"choices\":[{\"delta\":{\"content\":\"'' @ [0xC3],
       [0xA9] @ ascii ''\"}}]}'' @ [0x0A]]
      Open)
   = rs_written (stream_open None None) @ [Write (content_block_delta [0xFFFD, 0xFFFD])]"
  by (simp add: relay_stream_def stream_open_def stream_close_def on_end_def on_data_def
      toString_def ascii_def js_def pop_def process_line_def startsWith_def slice_str_def Let_def
      e_acute_parse_def text_chunk_def translateOpenAIStreamChunk_def)

text \<open>
  C1. At a well-formed upstream stream, one content chunk carrying the text U+00E9 followed
  by a finish chunk and the \<open>[DONE]\<close> line: delivered in one read, the relay writes the
  response head, \<open>message_start\<close>, \<open>content_block_start\<close>, one \<open>content_block_delta\<close> carrying
  U+00E9, \<open>content_block_stop\<close>, \<open>message_delta\<close>, \<open>message_stop\<close>; the same bytes delivered
  in two reads that part between the two bytes of the character give the same events with
  the \<open>content_block_delta\<close> carrying U+FFFD U+FFFD, not the chunk's text. The events, their
  number and their order are as the framing has them; the text carried depends on the reads,
  because each read is decoded on its own before it reaches the buffer.
\<close>

theorem split_character_corrupts_delta_text:
  "concat
     [ascii ''data: {\"choices\":[{\"delta\":{\"content\":\"'' @ [0xC3],
      [0xA9] @ ascii ''\"}}]}'' @ [0x0A, 0x0A]
        @ ascii ''data: {\"choices\":[{\"delta\":{},\"finish_reason\":\"stop\"}]}'' @ [0x0A, 0x0A]
        @ ascii ''data: [DONE]'' @ [0x0A, 0x0A]]
   = ascii ''data: {\"choices\":[{\"delta\":{\"content\":\"'' @ [0xC3, 0xA9] @ ascii ''\"}}]}''
        @ [0x0A, 0x0A]
        @ ascii ''data: {\"choices\":[{\"delta\":{},\"finish_reason\":\"stop\"}]}'' @ [0x0A, 0x0A]
        @ ascii ''data: [DONE]'' @ [0x0A, 0x0A]
   \<and> List.map_filter (frame_of_line e_acute_stream_parse)
       (butlast (split_newline (toString
         (ascii ''data: {\"choices\":[{\"delta\":{\"content\":\"'' @ [0xC3, 0xA9] @ ascii ''\"}}]}''
          @ [0x0A, 0x0A]
          @ ascii ''data: {\"choices\":[{\"delta\":{},\"finish_reason\":\"stop\"}]}'' @ [0x0A, 0x0A]
          @ ascii ''data: [DONE]'' @ [0x0A, 0x0A]))))
     = [text_chunk [0xE9], finish_only_chunk (js ''stop'')]
   \<and> delta_text (text_chunk [0xE9]) = [0xE9]
   \<and> \<not> finish_chunk (text_chunk [0xE9])
   \<and> finish_chunk (finish_only_chunk (js ''stop''))
   \<and> rs_written (relay_stream e_acute_stream_parse None None
       [ascii ''data: {\"choices\":[{\"delta\":{\"content\":\"'' @ [0xC3, 0xA9] @ ascii ''\"}}]}''
          @ [0x0A, 0x0A]
          @ ascii ''data: {\"choices\":[{\"delta\":{},\"finish_reason\":\"stop\"}]}'' @ [0x0A, 0x0A]
          @ ascii ''data: [DONE]'' @ [0x0A, 0x0A]]
       Ended)
     = [WriteHead 200
          [(js ''Content-Type'', js ''text/event-stream''),
           (js ''Cache-Control'', js ''no-cache''),
           (js ''Connection'', js ''keep-alive'')],
        Write (Event (js ''message_start'')
          (JObj [(js ''type'', JStr (js ''message'')),
                 (js ''role'', JStr (js ''assistant'')),
                 (js ''content'', JArr []),
                 (js ''model'', JStr (js ''claude-sonnet-4-5-20250929''))])),
        Write (Event (js ''content_block_start'')
          (JObj [(js ''type'', JStr (js ''content_block'')),
                 (js ''index'', JNum 0),
                 (js ''content_block'',
                    JObj [(js ''type'', JStr (js ''text'')), (js ''text'', JStr [])])])),
        Write (Event (js ''content_block_delta'')
          (JObj [(js ''type'', JStr (js ''content_block_delta'')),
                 (js ''index'', JNum 0),
                 (js ''delta'',
                    JObj [(js ''type'', JStr (js ''text_delta'')), (js ''text'', JStr [0xE9])])])),
        Write (Event (js ''content_block_stop'') (JObj [(js ''index'', JNum 0)])),
        Write (Event (js ''message_delta'')
          (JObj [(js ''type'', JStr (js ''message_delta'')),
                 (js ''delta'', JObj [(js ''stop_reason'', JStr (js ''end_turn'')),
                                      (js ''stop_sequence'', JNull)]),
                 (js ''usage'', JObj [(js ''output_tokens'', JNum 0)])])),
        Write (Event (js ''message_stop'') (JObj [(js ''type'', JStr (js ''message_stop''))])),
        End None]
   \<and> rs_written (relay_stream e_acute_stream_parse None None
       [ascii ''data: {\"choices\":[{\"delta\":{\"content\":\"'' @ [0xC3],
        [0xA9] @ ascii ''\"}}]}'' @ [0x0A, 0x0A]
          @ ascii ''data: {\"choices\":[{\"delta\":{},\"finish_reason\":\"stop\"}]}'' @ [0x0A, 0x0A]
          @ ascii ''data: [DONE]'' @ [0x0A, 0x0A]]
       Ended)
     = [WriteHead 200
          [(js ''Content-Type'', js ''text/event-stream''),
           (js ''Cache-Control'', js ''no-cache''),
           (js ''Connection'', js ''keep-alive'')],
        Write (Event (js ''message_start'')
          (JObj [(js ''type'', JStr (js ''message'')),
                 (js ''role'', JStr (js ''assistant'')),
                 (js ''content'', JArr []),
                 (js ''model'', JStr (js ''claude-sonnet-4-5-20250929''))])),
        Write (Event (js ''content_block_start'')
          (JObj [(js ''type'', JStr (js ''content_block'')),
                 (js ''index'', JNum 0),
                 (js ''content_block'',
                    JObj [(js ''type'', JStr (js ''text'')), (js ''text'', JStr [])])])),
        Write (Event (js ''content_block_delta'')
          (JObj [(js ''type'', JStr (js ''content_block_delta'')),
                 (js ''index'', JNum 0),
                 (js ''delta'',
                    JObj [(js ''type'', JStr (js ''text_delta'')),
                          (js ''text'', JStr [0xFFFD, 0xFFFD])])])),
        Write (Event (js ''content_block_stop'') (JObj [(js ''index'', JNum 0)])),
        Write (Event (js ''message_delta'')
          (JObj [(js ''type'', JStr (js ''message_delta'')),
                 (js ''delta'', JObj [(js ''stop_reason'', JStr (js ''end_turn'')),
                                      (js ''stop_sequence'', JNull)]),
                 (js ''usage'', JObj [(js ''output_tokens'', JNum 0)])])),
        Write (Event (js ''message_stop'') (JObj [(js ''type'', JStr (js ''message_stop''))])),
        End None]"
  by (simp add: relay_stream_def stream_open_def stream_close_def on_end_def on_data_def
      toString_def ascii_def js_def pop_def process_line_def startsWith_def slice_str_def Let_def
      e_acute_stream_parse_def e_acute_parse_def text_chunk_def finish_only_chunk_def
      translateOpenAIStreamChunk_def statusCode_or_200_def message_start_def
      content_block_start_def content_block_delta_def content_block_stop_def message_delta_def
      message_stop_def frame_of_line_def finish_chunk_def delta_text_def List.map_filter_simps)

section \<open>The chat handler\<close>







lemma stream_starts_event_stream:
  "take 1 (rs_written (relay_stream parse status x_model reads c)) =
     [WriteHead (statusCode_or_200 status)
        [(js ''Content-Type'', js ''text/event-stream''),
         (js ''Cache-Control'', js ''no-cache''),
         (js ''Connection'', js ''keep-alive'')]]"
  by (simp add: stream_written stream_open_def)

text \<open>
  C10. When the Source Request has no \<open>stream\<close> field, \<open>translateAnthropicToOpenAI\<close> sets the
  Target Request's \<open>stream\<close> to true, the handler calls \<open>forwardToCodex\<close> with the streaming
  flag true, and \<open>forwardToCodex\<close> with that flag takes the streaming branch: what it writes
  is what the streaming relay writes, beginning with a head of content type
  \<open>text/event-stream\<close>, not the single JSON answer.
\<close>

theorem absent_stream_flag_streams:
  assumes "ar_stream a = None"
  shows "or_stream (translateAnthropicToOpenAI a instr) = Some True
   \<and> (\<forall>parse w req openAIReq tok stream.
        parse (req_body req) = Inr a
        \<and> outcome (handleAnthropicRequest parse w req) = ForwardToCodex openAIReq tok stream \<longrightarrow>
        stream = True \<and> or_stream openAIReq = Some True)
   \<and> forwardToCodex p pr req openAIReq True (Response status reads c) =
        rs_written (relay_stream p status (req_x_model req) reads c)
   \<and> take 1 (forwardToCodex p pr req openAIReq True (Response status reads c)) =
        [WriteHead (statusCode_or_200 status)
           [(js ''Content-Type'', js ''text/event-stream''),
            (js ''Cache-Control'', js ''no-cache''),
            (js ''Connection'', js ''keep-alive'')]]"
proof -
  have t: "or_stream (translateAnthropicToOpenAI a instr) = Some True" for instr
    using assms by (simp add: translateAnthropicToOpenAI_def)
  have h: "stream = True \<and> or_stream openAIReq = Some True"
    if "parse (req_body req) = Inr a"
      and "outcome (handleAnthropicRequest parse w req) = ForwardToCodex openAIReq tok stream"
    for parse w req openAIReq tok stream
    using that assms t
    by (auto simp: handleAnthropicRequest_def Let_def split: if_splits token_completion.splits)
  have f: "forwardToCodex p pr req openAIReq True (Response status reads c) =
        rs_written (relay_stream p status (req_x_model req) reads c)"
    by (simp add: forwardToCodex_def)
  have h': "\<forall>parse w req openAIReq tok stream.
        parse (req_body req) = Inr a
        \<and> outcome (handleAnthropicRequest parse w req) = ForwardToCodex openAIReq tok stream \<longrightarrow>
        stream = True \<and> or_stream openAIReq = Some True"
    using h by blast
  show ?thesis
  proof (intro conjI)
    show "or_stream (translateAnthropicToOpenAI a instr) = Some True" by (rule t)
    show "\<forall>parse w req openAIReq tok stream.
        parse (req_body req) = Inr a
        \<and> outcome (handleAnthropicRequest parse w req) = ForwardToCodex openAIReq tok stream \<longrightarrow>
        stream = True \<and> or_stream openAIReq = Some True" by (rule h')
    show "forwardToCodex p pr req openAIReq True (Response status reads c) =
        rs_written (relay_stream p status (req_x_model req) reads c)" by (rule f)
    show "take 1 (forwardToCodex p pr req openAIReq True (Response status reads c)) =
        [WriteHead (statusCode_or_200 status)
           [(js ''Content-Type'', js ''text/event-stream''),
            (js ''Cache-Control'', js ''no-cache''),
            (js ''Connection'', js ''keep-alive'')]]"
      unfolding f by (rule stream_starts_event_stream)
  qed
qed

theorem absent_stream_flag_streams_witness:
  "ar_stream sample_request = None
   \<and> outcome (handleAnthropicRequest parse_sample_request logged_in
        (chat_request ''Bearer sk-ant-api03-key'')) =
      ForwardToCodex (translateAnthropicToOpenAI sample_request (Some CODEX_SYSTEM_INSTRUCTIONS))
        (js ''at'') True
   \<and> or_stream (translateAnthropicToOpenAI sample_request (Some CODEX_SYSTEM_INSTRUCTIONS)) = Some True
   \<and> take 1 (forwardToCodex sample_parse (\<lambda>data. None)
        (chat_request ''Bearer sk-ant-api03-key'')
        (translateAnthropicToOpenAI sample_request (Some CODEX_SYSTEM_INSTRUCTIONS)) True
        (Response (Some 200) [ascii ''data: A'' @ [0x0A]] Ended)) =
      [WriteHead 200
         [(js ''Content-Type'', js ''text/event-stream''),
          (js ''Cache-Control'', js ''no-cache''),
          (js ''Connection'', js ''keep-alive'')]]"
proof -
  have s: "ar_stream sample_request = None" by (simp add: sample_request_def)
  have o: "outcome (handleAnthropicRequest parse_sample_request logged_in
        (chat_request ''Bearer sk-ant-api03-key'')) =
      ForwardToCodex (translateAnthropicToOpenAI sample_request (Some CODEX_SYSTEM_INSTRUCTIONS))
        (js ''at'') True"
    by (simp add: handleAnthropicRequest_def getValidAccessToken_def logged_in_def
        chat_request_def parse_sample_request_def sample_request_def startsWith_def
        slice_str_def js_def Let_def)
  note all = absent_stream_flag_streams [OF s, of "Some CODEX_SYSTEM_INSTRUCTIONS" sample_parse
        "\<lambda>data. None" "chat_request ''Bearer sk-ant-api03-key''"
        "translateAnthropicToOpenAI sample_request (Some CODEX_SYSTEM_INSTRUCTIONS)"
        "Some 200" "[ascii ''data: A'' @ [0x0A]]" Ended]
  have c1: "or_stream (translateAnthropicToOpenAI sample_request (Some CODEX_SYSTEM_INSTRUCTIONS)) = Some True"
    using all by (rule conjunct1)
  have c4: "take 1 (forwardToCodex sample_parse (\<lambda>data. None)
        (chat_request ''Bearer sk-ant-api03-key'')
        (translateAnthropicToOpenAI sample_request (Some CODEX_SYSTEM_INSTRUCTIONS)) True
        (Response (Some 200) [ascii ''data: A'' @ [0x0A]] Ended)) =
      [WriteHead (statusCode_or_200 (Some 200))
         [(js ''Content-Type'', js ''text/event-stream''),
          (js ''Cache-Control'', js ''no-cache''),
          (js ''Connection'', js ''keep-alive'')]]"
    using all by (rule conjunct2 [THEN conjunct2, THEN conjunct2])
  have st: "statusCode_or_200 (Some 200) = 200" by (simp add: statusCode_or_200_def)
  show ?thesis
    using s o c1 c4 unfolding st by (intro conjI)
qed

end
